theory Spec2Isabelle
  imports Complex_Main "HOL-Library.Char_ord" "HOL-Library.List_Lexorder"
begin

section \<open>JavaScript numbers\<close>

text \<open>
  Every numeric field of the two Mongoose schemas is a JavaScript Number. The model keeps
  the finite values as exact rationals and adds the three values a division can produce
  from them: the two infinities and NaN. Rounding, overflow and the sign of zero are not
  modelled (a zero denominator counts as +0). Comparisons with NaN are false, NaN and 0
  are falsy, and nothing here raises.
\<close>

datatype jsnum = Fin rat | PosInf | NegInf | NaN

fun js_neg :: "jsnum \<Rightarrow> jsnum" where
  "js_neg (Fin a) = Fin (- a)"
| "js_neg PosInf = NegInf"
| "js_neg NegInf = PosInf"
| "js_neg NaN = NaN"

fun js_add :: "jsnum \<Rightarrow> jsnum \<Rightarrow> jsnum" where
  "js_add (Fin a) (Fin b) = Fin (a + b)"
| "js_add NaN _ = NaN"
| "js_add _ NaN = NaN"
| "js_add PosInf NegInf = NaN"
| "js_add NegInf PosInf = NaN"
| "js_add PosInf _ = PosInf"
| "js_add _ PosInf = PosInf"
| "js_add NegInf _ = NegInf"
| "js_add _ NegInf = NegInf"

definition js_sub :: "jsnum \<Rightarrow> jsnum \<Rightarrow> jsnum" where
  "js_sub a b = js_add a (js_neg b)"

text \<open>The sign of a number as \<open>-1\<close>, \<open>0\<close> or \<open>1\<close>; NaN has none.\<close>

fun js_sign :: "jsnum \<Rightarrow> int option" where
  "js_sign (Fin a) = Some (if a < 0 then - 1 else if a = 0 then 0 else 1)"
| "js_sign PosInf = Some 1"
| "js_sign NegInf = Some (- 1)"
| "js_sign NaN = None"

definition inf_of_sign :: "int \<Rightarrow> jsnum" where
  "inf_of_sign s = (if s < 0 then NegInf else PosInf)"

fun js_mul :: "jsnum \<Rightarrow> jsnum \<Rightarrow> jsnum" where
  "js_mul (Fin a) (Fin b) = Fin (a * b)"
| "js_mul a b =
     (case (js_sign a, js_sign b) of
        (Some s, Some t) \<Rightarrow> (if s * t = 0 then NaN else inf_of_sign (s * t))
      | _ \<Rightarrow> NaN)"

fun js_div :: "jsnum \<Rightarrow> jsnum \<Rightarrow> jsnum" where
  "js_div (Fin a) (Fin b) =
     (if b \<noteq> 0 then Fin (a / b)
      else if a = 0 then NaN
      else if 0 < a then PosInf else NegInf)"
| "js_div (Fin a) PosInf = Fin 0"
| "js_div (Fin a) NegInf = Fin 0"
| "js_div PosInf (Fin b) = (if b < 0 then NegInf else PosInf)"
| "js_div NegInf (Fin b) = (if b < 0 then PosInf else NegInf)"
| "js_div _ _ = NaN"

fun js_lt :: "jsnum \<Rightarrow> jsnum \<Rightarrow> bool" where
  "js_lt (Fin a) (Fin b) = (a < b)"
| "js_lt NaN _ = False"
| "js_lt _ NaN = False"
| "js_lt _ NegInf = False"
| "js_lt PosInf _ = False"
| "js_lt NegInf _ = True"
| "js_lt _ PosInf = True"

fun js_eq :: "jsnum \<Rightarrow> jsnum \<Rightarrow> bool" where
  "js_eq NaN _ = False"
| "js_eq _ NaN = False"
| "js_eq a b = (a = b)"

definition js_gt :: "jsnum \<Rightarrow> jsnum \<Rightarrow> bool" where
  "js_gt a b = js_lt b a"

definition js_le :: "jsnum \<Rightarrow> jsnum \<Rightarrow> bool" where
  "js_le a b = (js_lt a b \<or> js_eq a b)"

definition js_ge :: "jsnum \<Rightarrow> jsnum \<Rightarrow> bool" where
  "js_ge a b = js_le b a"

text \<open>\<open>Math.floor\<close>, and the truth value of a number in a condition.\<close>

fun js_floor :: "jsnum \<Rightarrow> jsnum" where
  "js_floor (Fin a) = Fin (of_int \<lfloor>a\<rfloor>)"
| "js_floor x = x"

fun truthy :: "jsnum \<Rightarrow> bool" where
  "truthy (Fin a) = (a \<noteq> 0)"
| "truthy NaN = False"
| "truthy _ = True"

text \<open>
  A field that may be \<open>undefined\<close> is an option. \<open>undefined\<close> is falsy, converts to
  NaN in a comparison (so every comparison with it is false), and \<open>x || 0\<close> replaces
  a falsy \<open>x\<close> by 0.
\<close>

fun truthy_opt :: "jsnum option \<Rightarrow> bool" where
  "truthy_opt None = False"
| "truthy_opt (Some x) = truthy x"

fun to_number :: "jsnum option \<Rightarrow> jsnum" where
  "to_number None = NaN"
| "to_number (Some x) = x"

definition or_zero :: "jsnum option \<Rightarrow> jsnum" where
  "or_zero x = (if truthy_opt x then to_number x else Fin 0)"

definition is_finite :: "jsnum \<Rightarrow> bool" where
  "is_finite x = (case x of Fin _ \<Rightarrow> True | _ \<Rightarrow> False)"

section \<open>The Call schema\<close>

text \<open>
  The fields of the Call document that its hooks, virtuals and methods read or write.
  A Date is its time value in milliseconds; a Date field without a default may be unset.
  Fields the methods never touch (numbers, names, tracking, tags) live in the extension
  part of the record, so every statement about \<open>'a call_scheme\<close> holds for the full
  document.
\<close>

datatype call_status = Initiated | Ringing | Answered | Completed | Failed | No_answer | Busy

record call_timing =
  initiatedAt :: "int option"
  ringingAt :: "int option"
  answeredAt :: "int option"
  endedAt :: "int option"
  duration :: jsnum
  waitTime :: jsnum

record call_quality =
  score :: "jsnum option"

record call_cost =
  perMinute :: jsnum
  cost_total :: jsnum

record call_revenue =
  amount :: jsnum

record lead_budget =
  budget_min :: "jsnum option"
  budget_max :: "jsnum option"

record lead_data =
  isQualified :: bool
  qualificationScore :: "jsnum option"
  lead_budget :: "lead_budget option"

record call =
  status :: call_status
  timing :: call_timing
  quality :: call_quality
  cost :: call_cost
  revenue :: call_revenue
  leadData :: lead_data

text \<open>A new document: the schema defaults, with the required per-minute rate given.\<close>

definition new_call :: "int \<Rightarrow> jsnum \<Rightarrow> call" where
  "new_call now rate =
     \<lparr> status = Initiated,
       timing = \<lparr> initiatedAt = Some now, ringingAt = None, answeredAt = None,
                  endedAt = None, duration = Fin 0, waitTime = Fin 0 \<rparr>,
       quality = \<lparr> score = None \<rparr>,
       cost = \<lparr> perMinute = rate, cost_total = Fin 0 \<rparr>,
       revenue = \<lparr> amount = Fin 0 \<rparr>,
       leadData = \<lparr> isQualified = False, qualificationScore = None, lead_budget = None \<rparr> \<rparr>"

subsection \<open>Virtuals\<close>

definition profitability :: "'a call_scheme \<Rightarrow> jsnum" where
  "profitability c =
     (if js_gt (cost_total (cost c)) (Fin 0)
      then js_sub (amount (revenue c)) (cost_total (cost c))
      else Fin 0)"

definition call_roi :: "'a call_scheme \<Rightarrow> jsnum" where
  "call_roi c =
     (if js_gt (cost_total (cost c)) (Fin 0)
      then js_mul (js_div (js_sub (amount (revenue c)) (cost_total (cost c)))
                          (cost_total (cost c))) (Fin 100)
      else Fin 0)"

definition call_efficiency :: "'a call_scheme \<Rightarrow> jsnum" where
  "call_efficiency c =
     (if js_gt (duration (timing c)) (Fin 0)
      then js_div (amount (revenue c)) (js_div (duration (timing c)) (Fin 60))
      else Fin 0)"

subsection \<open>The pre-save hook\<close>

text \<open>
  The three steps of \<open>callSchema.pre('save')\<close>, in the source's order: the cost step
  reads the duration the first step has just written. A set Date is an object, hence
  truthy; the difference of two Dates is the difference of their time values.
\<close>

definition date_diff :: "int \<Rightarrow> int \<Rightarrow> jsnum" where
  "date_diff a b = Fin (of_int (a - b))"

definition save_duration :: "'a call_scheme \<Rightarrow> 'a call_scheme" where
  "save_duration c =
     (case (answeredAt (timing c), endedAt (timing c)) of
        (Some a, Some e) \<Rightarrow>
          c\<lparr>timing := (timing c)\<lparr>duration := js_floor (js_div (date_diff e a) (Fin 1000))\<rparr>\<rparr>
      | _ \<Rightarrow> c)"

definition save_waitTime :: "'a call_scheme \<Rightarrow> 'a call_scheme" where
  "save_waitTime c =
     (case (ringingAt (timing c), answeredAt (timing c)) of
        (Some r, Some a) \<Rightarrow>
          c\<lparr>timing := (timing c)\<lparr>waitTime := js_floor (js_div (date_diff a r) (Fin 1000))\<rparr>\<rparr>
      | _ \<Rightarrow> c)"

definition save_cost :: "'a call_scheme \<Rightarrow> 'a call_scheme" where
  "save_cost c =
     (if js_gt (duration (timing c)) (Fin 0) \<and> js_gt (perMinute (cost c)) (Fin 0)
      then c\<lparr>cost := (cost c)\<lparr>cost_total :=
                js_mul (js_div (duration (timing c)) (Fin 60)) (perMinute (cost c))\<rparr>\<rparr>
      else c)"

definition call_pre_save :: "'a call_scheme \<Rightarrow> 'a call_scheme" where
  "call_pre_save c = save_cost (save_waitTime (save_duration c))"

subsection \<open>updateStatus\<close>

text \<open>
  The status is assigned first, whatever it was; the \<open>switch\<close> then stamps the timing
  field of the new status and has no case for \<open>initiated\<close>. The timestamp is the
  second argument; a caller that omits it passes the current time.
\<close>

definition updateStatus :: "call_status \<Rightarrow> int \<Rightarrow> 'a call_scheme \<Rightarrow> 'a call_scheme" where
  "updateStatus newStatus timestamp c =
     (let c1 = c\<lparr>status := newStatus\<rparr> in
      case newStatus of
        Ringing \<Rightarrow> c1\<lparr>timing := (timing c1)\<lparr>ringingAt := Some timestamp\<rparr>\<rparr>
      | Answered \<Rightarrow> c1\<lparr>timing := (timing c1)\<lparr>answeredAt := Some timestamp\<rparr>\<rparr>
      | Completed \<Rightarrow> c1\<lparr>timing := (timing c1)\<lparr>endedAt := Some timestamp\<rparr>\<rparr>
      | Failed \<Rightarrow> c1\<lparr>timing := (timing c1)\<lparr>endedAt := Some timestamp\<rparr>\<rparr>
      | No_answer \<Rightarrow> c1\<lparr>timing := (timing c1)\<lparr>endedAt := Some timestamp\<rparr>\<rparr>
      | Busy \<Rightarrow> c1\<lparr>timing := (timing c1)\<lparr>endedAt := Some timestamp\<rparr>\<rparr>
      | Initiated \<Rightarrow> c1)"

subsection \<open>calculateQualificationScore\<close>

text \<open>
  The local \<open>score\<close> starts at the literal 0 and only ever has integer literals added,
  so it is a rational here. The method stores the clamped score and the flag and returns
  the unclamped score: the result is the pair of the return value and the updated
  document. An unset \<open>quality.score\<close> or \<open>budget.min\<close> is \<open>undefined\<close> in the
  comparison; \<open>leadData.budget\<close> is tested for presence first.
\<close>

definition calculateQualificationScore :: "'a call_scheme \<Rightarrow> rat \<times> 'a call_scheme" where
  "calculateQualificationScore c =
     (let score0 = (0::rat);
          score1 = (if js_ge (duration (timing c)) (Fin 300) then score0 + 25
                    else if js_ge (duration (timing c)) (Fin 180) then score0 + 15
                    else if js_ge (duration (timing c)) (Fin 60) then score0 + 10
                    else score0);
          score2 = (if js_ge (to_number (score (quality c))) (Fin 4) then score1 + 20
                    else if js_ge (to_number (score (quality c))) (Fin 3) then score1 + 10
                    else score1);
          score3 = (if js_gt (amount (revenue c)) (Fin 0) then score2 + 30 else score2);
          score4 = (case lead_budget (leadData c) of
                      None \<Rightarrow> score3
                    | Some b \<Rightarrow>
                        (if js_gt (to_number (budget_min b)) (Fin 1000) then score3 + 15
                         else score3));
          c1 = c\<lparr>leadData := (leadData c)\<lparr>qualificationScore := Some (Fin (min score4 100))\<rparr>\<rparr>;
          c2 = c1\<lparr>leadData := (leadData c1)\<lparr>isQualified := (score4 \<ge> 70)\<rparr>\<rparr>
      in (score4, c2))"

section \<open>The Campaign schema\<close>

text \<open>
  The budget, performance and schedule parts of the Campaign document, and its status.
  \<open>startDate\<close> and \<open>endDate\<close> are required, so they are always set.
\<close>

datatype campaign_status = Draft | Active | Paused | Campaign_completed | Cancelled

record campaign_budget =
  daily :: jsnum
  budget_total :: jsnum
  spent :: jsnum
  remaining :: jsnum

record campaign_performance =
  totalCalls :: jsnum
  totalDuration :: jsnum
  averageDuration :: jsnum
  conversionRate :: jsnum
  costPerCall :: jsnum
  revenuePerCall :: jsnum
  roi :: jsnum

record campaign_schedule =
  startDate :: int
  endDate :: int
  timeZone :: string
  activeHours_start :: string
  activeHours_end :: string
  activeDays :: "string list"

record campaign =
  campaign_status :: campaign_status
  budget :: campaign_budget
  performance :: campaign_performance
  schedule :: campaign_schedule

text \<open>
  A new document: the schema defaults (status \<open>draft\<close>, nothing spent, the remaining
  budget equal to the total, all counters 0, the default hours and days), with the
  required budget caps and dates given.
\<close>

definition new_campaign :: "jsnum \<Rightarrow> jsnum \<Rightarrow> int \<Rightarrow> int \<Rightarrow> campaign" where
  "new_campaign d t s e =
     \<lparr> campaign_status = Draft,
       budget = \<lparr> daily = d, budget_total = t, spent = Fin 0, remaining = t \<rparr>,
       performance = \<lparr> totalCalls = Fin 0, totalDuration = Fin 0, averageDuration = Fin 0,
                       conversionRate = Fin 0, costPerCall = Fin 0, revenuePerCall = Fin 0,
                       roi = Fin 0 \<rparr>,
       schedule = \<lparr> startDate = s, endDate = e, timeZone = ''UTC'',
                    activeHours_start = ''09:00'', activeHours_end = ''17:00'',
                    activeDays = [''monday'', ''tuesday'', ''wednesday'', ''thursday'',
                                  ''friday''] \<rparr> \<rparr>"

subsection \<open>Virtuals\<close>

definition budgetUtilization :: "'a campaign_scheme \<Rightarrow> jsnum" where
  "budgetUtilization c =
     (if js_gt (budget_total (budget c)) (Fin 0)
      then js_mul (js_div (spent (budget c)) (budget_total (budget c))) (Fin 100)
      else Fin 0)"

definition efficiency :: "'a campaign_scheme \<Rightarrow> jsnum" where
  "efficiency c =
     (if js_gt (totalCalls (performance c)) (Fin 0)
      then js_div (revenuePerCall (performance c)) (costPerCall (performance c))
      else Fin 0)"

subsection \<open>The pre-save hook\<close>

text \<open>
  \<open>isModified\<close> is Mongoose's change tracking; the hook only asks it about the path
  \<open>budget.spent\<close>. It is a parameter of the model.
\<close>

definition campaign_pre_save :: "(string \<Rightarrow> bool) \<Rightarrow> 'a campaign_scheme \<Rightarrow> 'a campaign_scheme" where
  "campaign_pre_save isModified c =
     (if isModified ''budget.spent''
      then c\<lparr>budget := (budget c)\<lparr>remaining :=
                js_sub (budget_total (budget c)) (spent (budget c))\<rparr>\<rparr>
      else c)"

subsection \<open>updatePerformance\<close>

text \<open>
  The argument \<open>callData\<close> is an object whose three properties may each be missing.
  The method is three blocks in sequence: the counters, the cost block under
  \<open>if (callData.cost)\<close> and the revenue block under \<open>if (callData.revenue)\<close>; each
  reads what the blocks before it wrote.
\<close>

record callData =
  call_duration :: "jsnum option"
  call_cost :: "jsnum option"
  call_revenue :: "jsnum option"

definition fold_counters :: "callData \<Rightarrow> 'a campaign_scheme \<Rightarrow> 'a campaign_scheme" where
  "fold_counters callData c =
     (let p1 = (performance c)\<lparr>totalCalls := js_add (totalCalls (performance c)) (Fin 1)\<rparr>;
          p2 = p1\<lparr>totalDuration := js_add (totalDuration p1) (or_zero (call_duration callData))\<rparr>;
          p3 = p2\<lparr>averageDuration := js_div (totalDuration p2) (totalCalls p2)\<rparr>
      in c\<lparr>performance := p3\<rparr>)"

definition fold_cost :: "callData \<Rightarrow> 'a campaign_scheme \<Rightarrow> 'a campaign_scheme" where
  "fold_cost callData c =
     (if truthy_opt (call_cost callData)
      then (let c1 = c\<lparr>budget := (budget c)\<lparr>spent :=
                         js_add (spent (budget c)) (to_number (call_cost callData))\<rparr>\<rparr>
            in c1\<lparr>performance := (performance c1)\<lparr>costPerCall :=
                         js_div (spent (budget c1)) (totalCalls (performance c1))\<rparr>\<rparr>)
      else c)"

definition fold_revenue :: "callData \<Rightarrow> 'a campaign_scheme \<Rightarrow> 'a campaign_scheme" where
  "fold_revenue callData c =
     (if truthy_opt (call_revenue callData)
      then (let p = performance c;
                p1 = p\<lparr>revenuePerCall :=
                        js_div (js_add (js_mul (revenuePerCall p) (js_sub (totalCalls p) (Fin 1)))
                                       (to_number (call_revenue callData)))
                               (totalCalls p)\<rparr>;
                p2 = p1\<lparr>roi := js_mul (js_div (js_sub (revenuePerCall p1) (costPerCall p1))
                                                 (costPerCall p1)) (Fin 100)\<rparr>
            in c\<lparr>performance := p2\<rparr>)
      else c)"

definition updatePerformance :: "callData \<Rightarrow> 'a campaign_scheme \<Rightarrow> 'a campaign_scheme" where
  "updatePerformance callData c = fold_revenue callData (fold_cost callData (fold_counters callData c))"

text \<open>Folding a sequence of calls, the first call of the list first.\<close>

fun fold_calls :: "callData list \<Rightarrow> 'a campaign_scheme \<Rightarrow> 'a campaign_scheme" where
  "fold_calls [] c = c"
| "fold_calls (d # ds) c = fold_calls ds (updatePerformance d c)"

subsection \<open>isActive\<close>

text \<open>
  \<open>new Date()\<close> is the argument \<open>now\<close>: its time value and, as the runtime's time
  zone gives them, its local clock fields and weekday (0 is Sunday).

  \<open>toTimeString\<close> prints the local time as \<open>HH:MM:SS\<close> followed by the zone.
  \<open>toLocaleDateString\<close> with only the \<open>weekday\<close> option prints the weekday name
  in the width the option asks for; the ECMAScript Internationalization API reads the
  option with the allowed values \<open>narrow\<close>, \<open>short\<close> and \<open>long\<close> and throws a
  RangeError for any other value.
\<close>

datatype js_error = RangeError

record js_date =
  time_value :: int
  local_hours :: nat
  local_minutes :: nat
  local_seconds :: nat
  local_weekday :: nat
  zone_text :: string

definition digit_char :: "nat \<Rightarrow> char" where
  "digit_char n = ''0123456789'' ! (n mod 10)"

definition pad2 :: "nat \<Rightarrow> string" where
  "pad2 n = [digit_char (n div 10), digit_char n]"

definition toTimeString :: "js_date \<Rightarrow> string" where
  "toTimeString d =
     pad2 (local_hours d) @ '':'' @ pad2 (local_minutes d) @ '':'' @ pad2 (local_seconds d)
       @ '' '' @ zone_text d"

definition weekday_names :: "string list" where
  "weekday_names = [''Sunday'', ''Monday'', ''Tuesday'', ''Wednesday'', ''Thursday'',
                    ''Friday'', ''Saturday'']"

definition toLocaleDateString :: "js_date \<Rightarrow> string \<Rightarrow> string \<Rightarrow> js_error + string" where
  "toLocaleDateString d locale weekday =
     (let name = weekday_names ! (local_weekday d mod 7) in
      if weekday = ''long'' then Inr name
      else if weekday = ''short'' then Inr (take 3 name)
      else if weekday = ''narrow'' then Inr (take 1 name)
      else Inl RangeError)"

text \<open>
  The method computes \<open>currentTime\<close> and \<open>currentDay\<close> before it looks at the
  document. Strings compare lexicographically by character code, Dates by time value.
\<close>

definition isActive :: "js_date \<Rightarrow> 'a campaign_scheme \<Rightarrow> js_error + bool" where
  "isActive now c =
     (let currentTime = take 5 (toTimeString now) in
      case toLocaleDateString now ''en-US'' ''lowercase'' of
        Inl err \<Rightarrow> Inl err
      | Inr currentDay \<Rightarrow>
          Inr (campaign_status c = Active \<and>
               startDate (schedule c) \<le> time_value now \<and>
               time_value now \<le> endDate (schedule c) \<and>
               currentDay \<in> set (activeDays (schedule c)) \<and>
               activeHours_start (schedule c) \<le> currentTime \<and>
               currentTime \<le> activeHours_end (schedule c)))"

section \<open>Sequences of operations on a call\<close>

text \<open>
  What the status-change collaborator and the persistence layer do to one document: a
  call of \<open>updateStatus\<close> with a status and a timestamp, or a save, which runs the
  pre-save hook.
\<close>

datatype call_event = UpdateStatus call_status int | Save

fun apply_event :: "call_event \<Rightarrow> 'a call_scheme \<Rightarrow> 'a call_scheme" where
  "apply_event (UpdateStatus s t) c = updateStatus s t c"
| "apply_event Save c = call_pre_save c"

fun run_events :: "call_event list \<Rightarrow> 'a call_scheme \<Rightarrow> 'a call_scheme" where
  "run_events [] c = c"
| "run_events (ev # evs) c = run_events evs (apply_event ev c)"

text \<open>The listed order of the statuses; the four terminal statuses share the last place.\<close>

fun status_rank :: "call_status \<Rightarrow> nat" where
  "status_rank Initiated = 0"
| "status_rank Ringing = 1"
| "status_rank Answered = 2"
| "status_rank _ = 3"

definition is_terminal :: "call_status \<Rightarrow> bool" where
  "is_terminal s = (status_rank s = 3)"

section \<open>Reference definitions\<close>

subsection \<open>The qualification score, component by component\<close>

text \<open>
  The point table of the specification, one function per component, each awarding the
  highest tier reached and nothing for a missing value.
\<close>

definition spec_duration_points :: "jsnum \<Rightarrow> rat" where
  "spec_duration_points d =
     (if js_ge d (Fin 300) then 25
      else if js_ge d (Fin 180) then 15
      else if js_ge d (Fin 60) then 10
      else 0)"

definition spec_quality_points :: "jsnum option \<Rightarrow> rat" where
  "spec_quality_points q =
     (case q of
        None \<Rightarrow> 0
      | Some s \<Rightarrow> (if js_ge s (Fin 4) then 20 else if js_ge s (Fin 3) then 10 else 0))"

definition spec_revenue_points :: "jsnum \<Rightarrow> rat" where
  "spec_revenue_points r = (if js_gt r (Fin 0) then 30 else 0)"

definition spec_budget_points :: "lead_budget option \<Rightarrow> rat" where
  "spec_budget_points b =
     (case b of
        None \<Rightarrow> 0
      | Some bd \<Rightarrow>
          (case budget_min bd of
             None \<Rightarrow> 0
           | Some m \<Rightarrow> (if js_gt m (Fin 1000) then 15 else 0)))"

definition spec_score :: "'a call_scheme \<Rightarrow> rat" where
  "spec_score c =
     spec_duration_points (duration (timing c))
       + spec_quality_points (score (quality c))
       + spec_revenue_points (amount (revenue c))
       + spec_budget_points (lead_budget (leadData c))"

definition spec_qualification :: "'a call_scheme \<Rightarrow> rat \<times> 'a call_scheme" where
  "spec_qualification c =
     (spec_score c,
      c\<lparr>leadData := (leadData c)\<lparr>qualificationScore := Some (Fin (min (spec_score c) 100)),
                                  isQualified := (70 \<le> spec_score c)\<rparr>\<rparr>)"

subsection \<open>Raw sums, averages derived on read\<close>

text \<open>
  The reimplementation the design notes propose: keep the raw sums of revenue and cost
  and the call count, and divide when the average is read.
\<close>

record raw_sums =
  totalRevenue :: jsnum
  totalCost :: jsnum
  callCount :: jsnum

definition no_sums :: raw_sums where
  "no_sums = \<lparr> totalRevenue = Fin 0, totalCost = Fin 0, callCount = Fin 0 \<rparr>"

definition add_call :: "callData \<Rightarrow> raw_sums \<Rightarrow> raw_sums" where
  "add_call d s =
     \<lparr> totalRevenue = js_add (totalRevenue s) (or_zero (call_revenue d)),
       totalCost = js_add (totalCost s) (or_zero (call_cost d)),
       callCount = js_add (callCount s) (Fin 1) \<rparr>"

fun add_calls :: "callData list \<Rightarrow> raw_sums \<Rightarrow> raw_sums" where
  "add_calls [] s = s"
| "add_calls (d # ds) s = add_calls ds (add_call d s)"

definition derived_revenuePerCall :: "raw_sums \<Rightarrow> jsnum" where
  "derived_revenuePerCall s = js_div (totalRevenue s) (callCount s)"

text \<open>A call that carries a finite revenue other than zero.\<close>

definition has_revenue :: "callData \<Rightarrow> bool" where
  "has_revenue d = (case call_revenue d of Some (Fin r) \<Rightarrow> r \<noteq> 0 | _ \<Rightarrow> False)"

text \<open>A call whose revenue does not pass \<open>if (callData.revenue)\<close>: missing, 0 or NaN.\<close>

definition no_revenue :: "callData \<Rightarrow> bool" where
  "no_revenue d = (\<not> truthy_opt (call_revenue d))"

text \<open>The revenue a call with revenue carries.\<close>

definition revenue_amount :: "callData \<Rightarrow> rat" where
  "revenue_amount d = (case call_revenue d of Some (Fin r) \<Rightarrow> r | _ \<Rightarrow> 0)"

subsection \<open>Example inputs\<close>

definition call_of :: "jsnum option \<Rightarrow> jsnum option \<Rightarrow> jsnum option \<Rightarrow> callData" where
  "call_of d k r = \<lparr> call_duration = d, call_cost = k, call_revenue = r \<rparr>"

definition example_campaign :: campaign where
  "example_campaign = new_campaign (Fin 100) (Fin 1000) 0 86400000"

text \<open>A call that rang at 4 s, was answered at 10 s and completed at 135 s, at rate 3.\<close>

definition answered_call :: call where
  "answered_call =
     updateStatus Completed 135000 (updateStatus Answered 10000
       (updateStatus Ringing 4000 (new_call 0 (Fin 3))))"

text \<open>
  Sequences of calls: revenue 100 then none; revenue 100, none, then 50; and two calls
  without revenue (one missing, one 0) before a call with revenue 100.
\<close>

definition paying_then_silent :: "callData list" where
  "paying_then_silent = [call_of None None (Some (Fin 100)), call_of None None None]"

definition paying_silent_paying :: "callData list" where
  "paying_silent_paying =
     [call_of None None (Some (Fin 100)), call_of None None None,
      call_of None None (Some (Fin 50))]"

definition silent_then_paying :: "callData list" where
  "silent_then_paying =
     [call_of None None None, call_of None None (Some (Fin 0)),
      call_of None None (Some (Fin 100))]"



text \<open>A call of 60 seconds with revenue 100 and no cost, folded into a new campaign.\<close>

definition campaign_after_free_revenue :: campaign where
  "campaign_after_free_revenue =
     updatePerformance (call_of (Some (Fin 60)) None (Some (Fin 100))) example_campaign"

text \<open>A call whose completion is reported with an earlier timestamp than its answer.\<close>

definition late_answer_events :: "call_event list" where
  "late_answer_events = [UpdateStatus Completed 5000, UpdateStatus Answered 10000]"

definition completed_call :: call where
  "completed_call = updateStatus Completed 1000 (new_call 0 (Fin 1))"

definition spent_only :: "string \<Rightarrow> bool" where
  "spent_only path = (path = ''budget.spent'')"

section \<open>Lead qualification\<close>

lemma js_cmp_NaN: "js_ge NaN x = False" "js_gt NaN x = False"
  by (cases x; simp add: js_ge_def js_le_def js_gt_def)+

lemma duration_points_eq:
  "(if js_ge d (Fin 300) then s + 25 else if js_ge d (Fin 180) then s + 15
    else if js_ge d (Fin 60) then s + 10 else s) = s + spec_duration_points d"
  by (simp add: spec_duration_points_def)

lemma quality_points_eq:
  "(if js_ge (to_number q) (Fin 4) then s + 20
    else if js_ge (to_number q) (Fin 3) then s + 10 else s) = s + spec_quality_points q"
  by (cases q) (simp_all add: spec_quality_points_def js_cmp_NaN)

lemma revenue_points_eq:
  "(if js_gt r (Fin 0) then s + 30 else s) = s + spec_revenue_points r"
  by (simp add: spec_revenue_points_def)

lemma budget_points_eq:
  "(case b of None \<Rightarrow> s
    | Some bd \<Rightarrow> (if js_gt (to_number (budget_min bd)) (Fin 1000) then s + 15 else s))
     = s + spec_budget_points b"
  by (simp add: spec_budget_points_def js_cmp_NaN split: option.splits)

lemma qualification_unfolded: "calculateQualificationScore c = spec_qualification c"
  unfolding calculateQualificationScore_def Let_def
    duration_points_eq quality_points_eq revenue_points_eq budget_points_eq
  by (simp add: spec_qualification_def spec_score_def)

lemma spec_points_bounds:
  "spec_duration_points d \<le> 25" "spec_quality_points q \<le> 20"
  "spec_revenue_points r \<le> 30" "spec_budget_points b \<le> 15"
  by (simp_all add: spec_duration_points_def spec_quality_points_def spec_revenue_points_def
      spec_budget_points_def split: option.splits)

lemma spec_score_le_90: "spec_score c \<le> 90"
proof -
  note b = spec_points_bounds(1) [of "duration (timing c)"]
    spec_points_bounds(2) [of "score (quality c)"]
    spec_points_bounds(3) [of "amount (revenue c)"]
    spec_points_bounds(4) [of "lead_budget (leadData c)"]
  from b show ?thesis unfolding spec_score_def by linarith
qed

text \<open>
  Claim C1. On every call document, \<open>calculateQualificationScore\<close> is the reference
  definition: the score is the sum of the four components of the point table (highest
  duration tier only, highest quality tier only, 30 for a positive revenue, 15 for a
  budget floor above 1000); the method returns that sum, stores its minimum with 100 in
  \<open>leadData.qualificationScore\<close>, sets \<open>leadData.isQualified\<close> to whether the sum
  is at least 70, and changes nothing else.
\<close>

theorem calculateQualificationScore_reference:
  "calculateQualificationScore c = spec_qualification c"
  unfolding calculateQualificationScore_def Let_def
    duration_points_eq quality_points_eq revenue_points_eq budget_points_eq
  by (simp add: spec_qualification_def spec_score_def)

text \<open>
  Claim C10. The returned score never exceeds 90, so the clamp at 100 does nothing: the
  stored score is the returned score, and the qualified flag is true exactly when the
  stored score is at least 70.
\<close>

theorem qualification_clamp_inert:
  "fst (calculateQualificationScore c) \<le> 90 \<and>
   qualificationScore (leadData (snd (calculateQualificationScore c)))
     = Some (Fin (fst (calculateQualificationScore c))) \<and>
   isQualified (leadData (snd (calculateQualificationScore c)))
     = js_ge (to_number (qualificationScore (leadData (snd (calculateQualificationScore c)))))
         (Fin 70)"
  using spec_score_le_90 [of c]
  by (auto simp add: qualification_unfolded spec_qualification_def js_ge_def js_le_def)

section \<open>Derived fields of a call\<close>

lemma floor_ms: "js_floor (js_div (date_diff e a) (Fin 1000)) = Fin (of_int ((e - a) div 1000))"
proof -
  have "\<lfloor>(of_int (e - a) :: rat) / of_int 1000\<rfloor> = (e - a) div 1000"
    by (rule floor_divide_of_int_eq)
  then show ?thesis by (simp add: date_diff_def)
qed

lemma save_duration_eq:
  "save_duration c =
     c\<lparr>timing := (timing c)\<lparr>duration :=
        (case (answeredAt (timing c), endedAt (timing c)) of
           (Some a, Some e) \<Rightarrow> Fin (of_int ((e - a) div 1000))
         | _ \<Rightarrow> duration (timing c))\<rparr>\<rparr>"
  by (simp add: save_duration_def floor_ms split: option.splits)

lemma save_waitTime_eq:
  "save_waitTime c =
     c\<lparr>timing := (timing c)\<lparr>waitTime :=
        (case (ringingAt (timing c), answeredAt (timing c)) of
           (Some r, Some a) \<Rightarrow> Fin (of_int ((a - r) div 1000))
         | _ \<Rightarrow> waitTime (timing c))\<rparr>\<rparr>"
  by (simp add: save_waitTime_def floor_ms split: option.splits)

lemma save_cost_eq:
  "save_cost c =
     c\<lparr>cost := (cost c)\<lparr>cost_total :=
        (if js_gt (duration (timing c)) (Fin 0) \<and> js_gt (perMinute (cost c)) (Fin 0)
         then js_mul (js_div (duration (timing c)) (Fin 60)) (perMinute (cost c))
         else cost_total (cost c))\<rparr>\<rparr>"
  by (simp add: save_cost_def)

lemma pre_save_timing:
  "timing (call_pre_save c) =
     (timing c)\<lparr>duration :=
        (case (answeredAt (timing c), endedAt (timing c)) of
           (Some a, Some e) \<Rightarrow> Fin (of_int ((e - a) div 1000))
         | _ \<Rightarrow> duration (timing c)),
       waitTime :=
        (case (ringingAt (timing c), answeredAt (timing c)) of
           (Some r, Some a) \<Rightarrow> Fin (of_int ((a - r) div 1000))
         | _ \<Rightarrow> waitTime (timing c))\<rparr>"
  by (simp add: call_pre_save_def save_cost_eq save_waitTime_eq save_duration_eq
      split: option.splits)

lemma pre_save_cost:
  "cost (call_pre_save c) =
     (cost c)\<lparr>cost_total :=
        (if js_gt (duration (timing (call_pre_save c))) (Fin 0) \<and> js_gt (perMinute (cost c)) (Fin 0)
         then js_mul (js_div (duration (timing (call_pre_save c))) (Fin 60)) (perMinute (cost c))
         else cost_total (cost c))\<rparr>"
proof -
  have t: "duration (timing (call_pre_save c)) = duration (timing (save_waitTime (save_duration c)))"
    by (simp add: call_pre_save_def save_cost_eq)
  have k: "cost (save_waitTime (save_duration c)) = cost c"
    by (simp add: save_waitTime_eq save_duration_eq)
  show ?thesis
    unfolding t by (simp add: call_pre_save_def save_cost_eq k)
qed

lemma pre_save_frame:
  "call_pre_save c = c\<lparr>timing := timing (call_pre_save c), cost := cost (call_pre_save c)\<rparr>"
  by (simp add: call_pre_save_def save_cost_eq save_waitTime_eq save_duration_eq)

lemma pre_save_duration:
  "duration (timing (call_pre_save c)) =
     (case (answeredAt (timing c), endedAt (timing c)) of
        (Some a, Some e) \<Rightarrow> Fin (of_int ((e - a) div 1000))
      | _ \<Rightarrow> duration (timing c))"
  by (simp add: pre_save_timing)

lemma pre_save_waitTime:
  "waitTime (timing (call_pre_save c)) =
     (case (ringingAt (timing c), answeredAt (timing c)) of
        (Some r, Some a) \<Rightarrow> Fin (of_int ((a - r) div 1000))
      | _ \<Rightarrow> waitTime (timing c))"
  by (simp add: pre_save_timing)

lemma pre_save_cost_total:
  "cost_total (cost (call_pre_save c)) =
     (if js_gt (duration (timing (call_pre_save c))) (Fin 0) \<and> js_gt (perMinute (cost c)) (Fin 0)
      then js_mul (js_div (duration (timing (call_pre_save c))) (Fin 60)) (perMinute (cost c))
      else cost_total (cost c))"
  by (subst pre_save_cost) simp

text \<open>
  Claim C2. The pre-save hook of a call: with \<open>answeredAt\<close> and \<open>endedAt\<close> both set,
  the duration becomes the floor of their difference over 1000; with \<open>ringingAt\<close> and
  \<open>answeredAt\<close> both set, the wait time becomes the floor of their difference over
  1000; with the (recomputed) duration and the per-minute rate both positive, the total
  cost becomes duration / 60 times the rate. Where a precondition fails the field keeps
  its value; nothing else in the document changes, and the hook always returns. For
  \<open>answeredAt = T0\<close> and \<open>endedAt = T0 + 125 s\<close> the duration is 125, and the total
  cost is 125 / 60 times the rate for a positive rate, and also for a zero rate on a
  document whose total cost is still the default 0.
\<close>

theorem call_pre_save_derived_fields:
  "(answeredAt (timing c) = Some a \<and> endedAt (timing c) = Some e \<longrightarrow>
      duration (timing (call_pre_save c)) = Fin (of_int ((e - a) div 1000)))
   \<and> (answeredAt (timing c) = None \<or> endedAt (timing c) = None \<longrightarrow>
      duration (timing (call_pre_save c)) = duration (timing c))
   \<and> (ringingAt (timing c) = Some r \<and> answeredAt (timing c) = Some a \<longrightarrow>
      waitTime (timing (call_pre_save c)) = Fin (of_int ((a - r) div 1000)))
   \<and> (ringingAt (timing c) = None \<or> answeredAt (timing c) = None \<longrightarrow>
      waitTime (timing (call_pre_save c)) = waitTime (timing c))
   \<and> (js_gt (duration (timing (call_pre_save c))) (Fin 0) \<and> js_gt (perMinute (cost c)) (Fin 0) \<longrightarrow>
      cost_total (cost (call_pre_save c)) =
        js_mul (js_div (duration (timing (call_pre_save c))) (Fin 60)) (perMinute (cost c)))
   \<and> (\<not> (js_gt (duration (timing (call_pre_save c))) (Fin 0) \<and> js_gt (perMinute (cost c)) (Fin 0)) \<longrightarrow>
      cost_total (cost (call_pre_save c)) = cost_total (cost c))
   \<and> call_pre_save c =
       c\<lparr>timing := (timing c)\<lparr>duration := duration (timing (call_pre_save c)),
                               waitTime := waitTime (timing (call_pre_save c))\<rparr>,
         cost := (cost c)\<lparr>cost_total := cost_total (cost (call_pre_save c))\<rparr>\<rparr>
   \<and> (answeredAt (timing c) = Some T0 \<and> endedAt (timing c) = Some (T0 + 125 * 1000) \<longrightarrow>
      duration (timing (call_pre_save c)) = Fin 125 \<and>
      (js_gt (perMinute (cost c)) (Fin 0) \<or> perMinute (cost c) = Fin 0 \<and> cost_total (cost c) = Fin 0 \<longrightarrow>
         cost_total (cost (call_pre_save c)) = js_mul (js_div (Fin 125) (Fin 60)) (perMinute (cost c))))"
proof -
  note d = pre_save_duration [of c] and w = pre_save_waitTime [of c]
    and k = pre_save_cost_total [of c]
  have 1: "answeredAt (timing c) = Some a \<and> endedAt (timing c) = Some e \<longrightarrow>
      duration (timing (call_pre_save c)) = Fin (of_int ((e - a) div 1000))"
    by (simp add: d)
  have 2: "answeredAt (timing c) = None \<or> endedAt (timing c) = None \<longrightarrow>
      duration (timing (call_pre_save c)) = duration (timing c)"
    by (auto simp add: d split: option.splits)
  have 3: "ringingAt (timing c) = Some r \<and> answeredAt (timing c) = Some a \<longrightarrow>
      waitTime (timing (call_pre_save c)) = Fin (of_int ((a - r) div 1000))"
    by (simp add: w)
  have 4: "ringingAt (timing c) = None \<or> answeredAt (timing c) = None \<longrightarrow>
      waitTime (timing (call_pre_save c)) = waitTime (timing c)"
    by (auto simp add: w split: option.splits)
  have 5: "js_gt (duration (timing (call_pre_save c))) (Fin 0) \<and> js_gt (perMinute (cost c)) (Fin 0) \<longrightarrow>
      cost_total (cost (call_pre_save c)) =
        js_mul (js_div (duration (timing (call_pre_save c))) (Fin 60)) (perMinute (cost c))"
    using k by simp
  have 6: "\<not> (js_gt (duration (timing (call_pre_save c))) (Fin 0) \<and> js_gt (perMinute (cost c)) (Fin 0)) \<longrightarrow>
      cost_total (cost (call_pre_save c)) = cost_total (cost c)"
    using k by simp
  have 7: "call_pre_save c =
       c\<lparr>timing := (timing c)\<lparr>duration := duration (timing (call_pre_save c)),
                               waitTime := waitTime (timing (call_pre_save c))\<rparr>,
         cost := (cost c)\<lparr>cost_total := cost_total (cost (call_pre_save c))\<rparr>\<rparr>"
    by (subst pre_save_frame) (simp add: pre_save_timing pre_save_cost)
  have 8: "answeredAt (timing c) = Some T0 \<and> endedAt (timing c) = Some (T0 + 125 * 1000) \<longrightarrow>
      duration (timing (call_pre_save c)) = Fin 125 \<and>
      (js_gt (perMinute (cost c)) (Fin 0) \<or> perMinute (cost c) = Fin 0 \<and> cost_total (cost c) = Fin 0 \<longrightarrow>
         cost_total (cost (call_pre_save c)) = js_mul (js_div (Fin 125) (Fin 60)) (perMinute (cost c)))"
  proof (intro impI)
    assume h: "answeredAt (timing c) = Some T0 \<and> endedAt (timing c) = Some (T0 + 125 * 1000)"
    then have d125: "duration (timing (call_pre_save c)) = Fin 125" by (simp add: d)
    have "js_gt (perMinute (cost c)) (Fin 0) \<or> perMinute (cost c) = Fin 0 \<and> cost_total (cost c) = Fin 0 \<longrightarrow>
         cost_total (cost (call_pre_save c)) = js_mul (js_div (Fin 125) (Fin 60)) (perMinute (cost c))"
      using k unfolding d125 by (auto simp add: js_gt_def)
    with d125 show "duration (timing (call_pre_save c)) = Fin 125 \<and>
      (js_gt (perMinute (cost c)) (Fin 0) \<or> perMinute (cost c) = Fin 0 \<and> cost_total (cost c) = Fin 0 \<longrightarrow>
         cost_total (cost (call_pre_save c)) = js_mul (js_div (Fin 125) (Fin 60)) (perMinute (cost c)))"
      by simp
  qed
  from 1 2 3 4 5 6 7 8 show ?thesis by blast
qed

lemma answered_call_timing:
  "ringingAt (timing answered_call) = Some 4000"
  "answeredAt (timing answered_call) = Some 10000"
  "endedAt (timing answered_call) = Some (10000 + 125 * 1000)"
  "perMinute (cost answered_call) = Fin 3"
  by (simp_all add: answered_call_def updateStatus_def new_call_def)

lemma new_call_timing:
  "answeredAt (timing (new_call t r)) = None"
  "endedAt (timing (new_call t r)) = None"
  "ringingAt (timing (new_call t r)) = None"
  "duration (timing (new_call t r)) = Fin 0"
  "waitTime (timing (new_call t r)) = Fin 0"
  by (simp_all add: new_call_def)

theorem call_pre_save_derived_fields_witness:
  "duration (timing (call_pre_save answered_call)) = Fin 125
   \<and> waitTime (timing (call_pre_save answered_call)) = Fin 6
   \<and> cost_total (cost (call_pre_save answered_call)) = Fin (25 / 4)
   \<and> duration (timing (call_pre_save (new_call 0 (Fin 3)))) = Fin 0
   \<and> waitTime (timing (call_pre_save (new_call 0 (Fin 3)))) = Fin 0"
proof -
  note a = call_pre_save_derived_fields [of answered_call 10000 "10000 + 125 * 1000" 4000 10000]
  note n = call_pre_save_derived_fields [of "new_call 0 (Fin 3)" 0 0 0 0]
  from a have d: "duration (timing (call_pre_save answered_call)) = Fin 125"
    by (simp add: answered_call_timing)
  from a have w: "waitTime (timing (call_pre_save answered_call)) = Fin 6"
    by (simp add: answered_call_timing)
  from a have k: "cost_total (cost (call_pre_save answered_call)) = Fin (25 / 4)"
    unfolding d by (simp add: answered_call_timing js_gt_def)
  from n have d0: "duration (timing (call_pre_save (new_call 0 (Fin 3)))) = Fin 0"
    by (simp add: new_call_timing)
  from n have w0: "waitTime (timing (call_pre_save (new_call 0 (Fin 3)))) = Fin 0"
    by (simp add: new_call_timing)
  from d w k d0 w0 show ?thesis by simp
qed

section \<open>Campaign performance\<close>

lemma fold_counters_fields:
  "performance (fold_counters d c) =
     (performance c)\<lparr>totalCalls := js_add (totalCalls (performance c)) (Fin 1),
       totalDuration := js_add (totalDuration (performance c)) (or_zero (call_duration d)),
       averageDuration := js_div (js_add (totalDuration (performance c)) (or_zero (call_duration d)))
                                 (js_add (totalCalls (performance c)) (Fin 1))\<rparr>"
  "budget (fold_counters d c) = budget c"
  by (simp_all add: fold_counters_def Let_def)

lemma fold_cost_fields:
  "budget (fold_cost d c) =
     (budget c)\<lparr>spent := (if truthy_opt (call_cost d)
                            then js_add (spent (budget c)) (to_number (call_cost d))
                            else spent (budget c))\<rparr>"
  "performance (fold_cost d c) =
     (performance c)\<lparr>costPerCall :=
        (if truthy_opt (call_cost d)
         then js_div (js_add (spent (budget c)) (to_number (call_cost d))) (totalCalls (performance c))
         else costPerCall (performance c))\<rparr>"
  by (simp_all add: fold_cost_def Let_def)

lemma fold_revenue_fields:
  "budget (fold_revenue d c) = budget c"
  "totalCalls (performance (fold_revenue d c)) = totalCalls (performance c)"
  "totalDuration (performance (fold_revenue d c)) = totalDuration (performance c)"
  "averageDuration (performance (fold_revenue d c)) = averageDuration (performance c)"
  "costPerCall (performance (fold_revenue d c)) = costPerCall (performance c)"
  "revenuePerCall (performance (fold_revenue d c)) =
     (if truthy_opt (call_revenue d)
      then js_div (js_add (js_mul (revenuePerCall (performance c))
                                  (js_sub (totalCalls (performance c)) (Fin 1)))
                          (to_number (call_revenue d)))
                  (totalCalls (performance c))
      else revenuePerCall (performance c))"
  by (simp_all add: fold_revenue_def Let_def)

lemma fold_revenue_roi:
  "roi (performance (fold_revenue d c)) =
     (if truthy_opt (call_revenue d)
      then js_mul (js_div (js_sub (revenuePerCall (performance (fold_revenue d c)))
                                  (costPerCall (performance c)))
                          (costPerCall (performance c))) (Fin 100)
      else roi (performance c))"
  by (simp add: fold_revenue_def Let_def)

lemma updatePerformance_fields:
  "totalCalls (performance (updatePerformance d c)) = js_add (totalCalls (performance c)) (Fin 1)"
  "totalDuration (performance (updatePerformance d c)) =
     js_add (totalDuration (performance c)) (or_zero (call_duration d))"
  "averageDuration (performance (updatePerformance d c)) =
     js_div (js_add (totalDuration (performance c)) (or_zero (call_duration d)))
            (js_add (totalCalls (performance c)) (Fin 1))"
  "spent (budget (updatePerformance d c)) =
     (if truthy_opt (call_cost d) then js_add (spent (budget c)) (to_number (call_cost d))
      else spent (budget c))"
  "costPerCall (performance (updatePerformance d c)) =
     (if truthy_opt (call_cost d)
      then js_div (js_add (spent (budget c)) (to_number (call_cost d)))
                  (js_add (totalCalls (performance c)) (Fin 1))
      else costPerCall (performance c))"
  "revenuePerCall (performance (updatePerformance d c)) =
     (if truthy_opt (call_revenue d)
      then js_div (js_add (js_mul (revenuePerCall (performance c))
                                  (js_sub (js_add (totalCalls (performance c)) (Fin 1)) (Fin 1)))
                          (to_number (call_revenue d)))
                  (js_add (totalCalls (performance c)) (Fin 1))
      else revenuePerCall (performance c))"
  by (simp_all add: updatePerformance_def fold_revenue_fields fold_cost_fields fold_counters_fields)

lemma updatePerformance_roi:
  "roi (performance (updatePerformance d c)) =
     (if truthy_opt (call_revenue d)
      then js_mul (js_div (js_sub (revenuePerCall (performance (updatePerformance d c)))
                                  (costPerCall (performance (updatePerformance d c))))
                          (costPerCall (performance (updatePerformance d c)))) (Fin 100)
      else roi (performance c))"
  by (simp add: updatePerformance_def fold_revenue_roi fold_revenue_fields fold_cost_fields
      fold_counters_fields)

lemma new_campaign_fields:
  "totalCalls (performance (new_campaign dc tc s e)) = Fin 0"
  "totalDuration (performance (new_campaign dc tc s e)) = Fin 0"
  "averageDuration (performance (new_campaign dc tc s e)) = Fin 0"
  "costPerCall (performance (new_campaign dc tc s e)) = Fin 0"
  "revenuePerCall (performance (new_campaign dc tc s e)) = Fin 0"
  "roi (performance (new_campaign dc tc s e)) = Fin 0"
  "spent (budget (new_campaign dc tc s e)) = Fin 0"
  "budget_total (budget (new_campaign dc tc s e)) = tc"
  "remaining (budget (new_campaign dc tc s e)) = tc"
  by (simp_all add: new_campaign_def)

lemma call_of_fields:
  "call_duration (call_of d k r) = d" "call_cost (call_of d k r) = k"
  "call_revenue (call_of d k r) = r"
  by (simp_all add: call_of_def)





subsection \<open>The running average of revenue\<close>

lemma has_revenueD:
  "has_revenue d \<Longrightarrow> call_revenue d = Some (Fin (revenue_amount d)) \<and> revenue_amount d \<noteq> 0"
  by (auto simp add: has_revenue_def revenue_amount_def split: option.splits jsnum.splits)

lemma updatePerformance_revenue_step:
  assumes "has_revenue d" and "totalCalls (performance c) = Fin (of_nat n)"
    and "revenuePerCall (performance c) = Fin q"
  shows "totalCalls (performance (updatePerformance d c)) = Fin (of_nat (Suc n))"
    and "revenuePerCall (performance (updatePerformance d c))
           = Fin ((q * of_nat n + revenue_amount d) / of_nat (Suc n))"
proof -
  from has_revenueD [OF assms(1)]
  have r: "call_revenue d = Some (Fin (revenue_amount d))" and nz: "revenue_amount d \<noteq> 0"
    by simp_all
  show "totalCalls (performance (updatePerformance d c)) = Fin (of_nat (Suc n))"
    by (simp add: updatePerformance_fields assms(2) add.commute)
  have pos: "(1 + of_nat n :: rat) \<noteq> 0"
    using of_nat_0_le_iff [of n, where 'a = rat] by linarith
  show "revenuePerCall (performance (updatePerformance d c))
           = Fin ((q * of_nat n + revenue_amount d) / of_nat (Suc n))"
    using pos by (simp add: updatePerformance_fields assms(2,3) r nz js_sub_def add.commute)
qed

lemma fold_calls_revenue:
  "list_all has_revenue ds \<Longrightarrow> totalCalls (performance c) = Fin (of_nat n) \<Longrightarrow>
   revenuePerCall (performance c) = Fin q \<Longrightarrow>
   totalCalls (performance (fold_calls ds c)) = Fin (of_nat (n + length ds)) \<and>
   (\<exists>q'. revenuePerCall (performance (fold_calls ds c)) = Fin q' \<and>
         q' * of_nat (n + length ds) = q * of_nat n + sum_list (map revenue_amount ds))"
proof (induction ds arbitrary: c n q)
  case Nil
  then show ?case by simp
next
  case (Cons d ds)
  from Cons.prems have hd: "has_revenue d" and tl: "list_all has_revenue ds" by simp_all
  let ?c = "updatePerformance d c"
  let ?q = "(q * of_nat n + revenue_amount d) / of_nat (Suc n)"
  note st = updatePerformance_revenue_step [OF hd Cons.prems(2) Cons.prems(3)]
  from Cons.IH [OF tl st(1) st(2)]
  obtain q' where tc: "totalCalls (performance (fold_calls ds ?c)) = Fin (of_nat (Suc n + length ds))"
    and rq: "revenuePerCall (performance (fold_calls ds ?c)) = Fin q'"
    and eq: "q' * of_nat (Suc n + length ds) = ?q * of_nat (Suc n) + sum_list (map revenue_amount ds)"
    by blast
  have "?q * of_nat (Suc n) = q * of_nat n + revenue_amount d"
    by simp
  with eq have "q' * of_nat (n + length (d # ds))
      = q * of_nat n + sum_list (map revenue_amount (d # ds))"
    by simp
  with tc rq show ?case by simp
qed

lemma add_call_sums:
  assumes "has_revenue d" and "totalRevenue s = Fin S" and "callCount s = Fin (of_nat n)"
  shows "totalRevenue (add_call d s) = Fin (S + revenue_amount d)"
    and "callCount (add_call d s) = Fin (of_nat (Suc n))"
  using has_revenueD [OF assms(1)] assms(2,3)
  by (simp_all add: add_call_def or_zero_def add.commute)

lemma add_calls_sums:
  "list_all has_revenue ds \<Longrightarrow> totalRevenue s = Fin S \<Longrightarrow> callCount s = Fin (of_nat n) \<Longrightarrow>
   totalRevenue (add_calls ds s) = Fin (S + sum_list (map revenue_amount ds)) \<and>
   callCount (add_calls ds s) = Fin (of_nat (n + length ds))"
proof (induction ds arbitrary: s S n)
  case Nil
  then show ?case by simp
next
  case (Cons d ds)
  from Cons.prems have hd: "has_revenue d" and tl: "list_all has_revenue ds" by simp_all
  note st = add_call_sums [OF hd Cons.prems(2) Cons.prems(3)]
  from Cons.IH [OF tl st(1) st(2)] show ?case by (simp add: add.assoc)
qed

lemma fold_calls_append: "fold_calls (xs @ ys) c = fold_calls ys (fold_calls xs c)"
  by (induction xs arbitrary: c) simp_all

lemma add_calls_append: "add_calls (xs @ ys) s = add_calls ys (add_calls xs s)"
  by (induction xs arbitrary: s) simp_all

lemma fold_calls_no_revenue:
  "list_all no_revenue ds \<Longrightarrow> totalCalls (performance c) = Fin (of_nat n) \<Longrightarrow>
   totalCalls (performance (fold_calls ds c)) = Fin (of_nat (n + length ds)) \<and>
   revenuePerCall (performance (fold_calls ds c)) = revenuePerCall (performance c)"
proof (induction ds arbitrary: c n)
  case Nil
  then show ?case by simp
next
  case (Cons d ds)
  from Cons.prems have tl: "list_all no_revenue ds" by simp
  from Cons.prems have hd: "\<not> truthy_opt (call_revenue d)" by (simp add: no_revenue_def)
  have t: "totalCalls (performance (updatePerformance d c)) = Fin (of_nat (Suc n))"
    by (simp add: updatePerformance_fields Cons.prems(2) add.commute)
  have r: "revenuePerCall (performance (updatePerformance d c)) = revenuePerCall (performance c)"
    using hd by (simp add: updatePerformance_fields)
  from Cons.IH [OF tl t] r show ?case by simp
qed

lemma add_calls_no_revenue:
  "list_all no_revenue ds \<Longrightarrow> totalRevenue s = Fin S \<Longrightarrow> callCount s = Fin (of_nat n) \<Longrightarrow>
   totalRevenue (add_calls ds s) = Fin S \<and>
   callCount (add_calls ds s) = Fin (of_nat (n + length ds))"
proof (induction ds arbitrary: s n)
  case Nil
  then show ?case by simp
next
  case (Cons d ds)
  from Cons.prems have tl: "list_all no_revenue ds" by simp
  from Cons.prems have hd: "\<not> truthy_opt (call_revenue d)" by (simp add: no_revenue_def)
  have r: "totalRevenue (add_call d s) = Fin S"
    using hd Cons.prems(2) by (simp add: add_call_def or_zero_def)
  have t: "callCount (add_call d s) = Fin (of_nat (Suc n))"
    using Cons.prems(3) by (simp add: add_call_def add.commute)
  from Cons.IH [OF tl r t] show ?case by simp
qed

text \<open>
  Where the running average is the mean: for calls without revenue followed by calls
  that each carry a finite revenue other than zero, folded into a new campaign,
  \<open>revenuePerCall\<close> equals the average derived from the raw sums, the sum of the
  revenues over the number of all calls.
\<close>

lemma revenuePerCall_agrees_with_sums:
  assumes "silent @ paying \<noteq> []" and "list_all no_revenue silent"
    and "list_all has_revenue paying"
  shows "revenuePerCall (performance (fold_calls (silent @ paying) (new_campaign dc tc s e)))
           = derived_revenuePerCall (add_calls (silent @ paying) no_sums)
         \<and> revenuePerCall (performance (fold_calls (silent @ paying) (new_campaign dc tc s e)))
           = Fin (sum_list (map revenue_amount paying) / of_nat (length silent + length paying))
         \<and> totalCalls (performance (fold_calls (silent @ paying) (new_campaign dc tc s e)))
           = Fin (of_nat (length silent + length paying))"
proof -
  let ?c = "new_campaign dc tc s e"
  let ?n = "length silent + length paying"
  have len: "(of_nat ?n :: rat) \<noteq> 0"
    using assms(1) by (cases silent; cases paying) simp_all
  have t0: "totalCalls (performance ?c) = Fin (of_nat 0)"
    by (simp add: new_campaign_fields)
  from fold_calls_no_revenue [OF assms(2) t0]
  have t1: "totalCalls (performance (fold_calls silent ?c)) = Fin (of_nat (length silent))"
    and r1: "revenuePerCall (performance (fold_calls silent ?c)) = Fin 0"
    by (simp_all add: new_campaign_fields)
  from fold_calls_revenue [OF assms(3) t1 r1]
  obtain q' where tc: "totalCalls (performance (fold_calls (silent @ paying) ?c)) = Fin (of_nat ?n)"
    and rq: "revenuePerCall (performance (fold_calls (silent @ paying) ?c)) = Fin q'"
    and eq: "q' * of_nat ?n = sum_list (map revenue_amount paying)"
    by (auto simp add: fold_calls_append)
  from eq len have q': "q' = sum_list (map revenue_amount paying) / of_nat ?n"
    by (simp add: field_simps)
  have s0: "totalRevenue no_sums = Fin 0" and n0: "callCount no_sums = Fin (of_nat 0)"
    by (simp_all add: no_sums_def)
  from add_calls_no_revenue [OF assms(2) s0 n0]
  have s1: "totalRevenue (add_calls silent no_sums) = Fin 0"
    and n1: "callCount (add_calls silent no_sums) = Fin (of_nat (length silent))"
    by simp_all
  from add_calls_sums [OF assms(3) s1 n1]
  have "derived_revenuePerCall (add_calls (silent @ paying) no_sums)
      = Fin (sum_list (map revenue_amount paying) / of_nat ?n)"
    using len by (simp add: derived_revenuePerCall_def add_calls_append)
  with tc rq q' show ?thesis by simp
qed

lemma silent_then_paying_agrees:
  "revenuePerCall (performance (fold_calls silent_then_paying example_campaign)) = Fin (100 / 3)
   \<and> derived_revenuePerCall (add_calls silent_then_paying no_sums) = Fin (100 / 3)"
proof -
  let ?S = "[call_of None None None, call_of None None (Some (Fin 0))]"
  let ?P = "[call_of None None (Some (Fin 100))]"
  have sp: "silent_then_paying = ?S @ ?P"
    by (simp add: silent_then_paying_def)
  have ne: "?S @ ?P \<noteq> []" by simp
  have si: "list_all no_revenue ?S"
    by (simp add: no_revenue_def call_of_fields)
  have pa: "list_all has_revenue ?P"
    by (simp add: has_revenue_def call_of_fields)
  have v: "sum_list (map revenue_amount ?P) / of_nat (length ?S + length ?P) = 100 / 3"
    by (simp add: revenue_amount_def call_of_fields)
  note t = revenuePerCall_agrees_with_sums [OF ne si pa, of "Fin 100" "Fin 1000" 0 86400000]
  from t have a: "revenuePerCall (performance (fold_calls (?S @ ?P) example_campaign))
      = derived_revenuePerCall (add_calls (?S @ ?P) no_sums)"
    unfolding example_campaign_def by blast
  from t have b: "revenuePerCall (performance (fold_calls (?S @ ?P) example_campaign))
      = Fin (sum_list (map revenue_amount ?P) / of_nat (length ?S + length ?P))"
    unfolding example_campaign_def by blast
  from a b show ?thesis unfolding sp v by (simp only: simp_thms)
qed

text \<open>
  Claim C4 fails on the code. The update weights the stored average by
  \<open>totalCalls - 1\<close>, the number of all earlier calls, but is skipped for a call
  without revenue although \<open>totalCalls\<close> has counted it. After calls with revenue
  100, none and 50 the stored \<open>revenuePerCall\<close> is 250/3 with \<open>totalCalls\<close> 3,
  where the sum of the revenues over \<open>totalCalls\<close> is 50; after calls with revenue
  100 and none it is 100 where that quotient is 50.
\<close>

theorem revenuePerCall_not_the_mean:
  "revenuePerCall (performance (fold_calls paying_silent_paying example_campaign)) = Fin (250 / 3)
   \<and> totalCalls (performance (fold_calls paying_silent_paying example_campaign)) = Fin 3
   \<and> derived_revenuePerCall (add_calls paying_silent_paying no_sums) = Fin 50
   \<and> revenuePerCall (performance (fold_calls paying_then_silent example_campaign)) = Fin 100
   \<and> totalCalls (performance (fold_calls paying_then_silent example_campaign)) = Fin 2
   \<and> derived_revenuePerCall (add_calls paying_then_silent no_sums) = Fin 50"
  by (simp add: updatePerformance_fields new_campaign_fields call_of_fields example_campaign_def
      derived_revenuePerCall_def add_call_def no_sums_def or_zero_def js_sub_def
      paying_then_silent_def paying_silent_paying_def)

subsection \<open>Divisions by the cost per call\<close>

text \<open>
  The virtuals that test the denominator they divide by return a finite number on
  finite fields.
\<close>

lemma budgetUtilization_finite:
  "is_finite (spent (budget c)) \<Longrightarrow> is_finite (budget_total (budget c)) \<Longrightarrow>
   is_finite (budgetUtilization c)"
  by (cases "spent (budget c)"; cases "budget_total (budget c)")
    (simp_all add: budgetUtilization_def is_finite_def js_gt_def)

lemma call_roi_finite:
  "is_finite (amount (revenue c)) \<Longrightarrow> is_finite (cost_total (cost c)) \<Longrightarrow>
   is_finite (call_roi c)"
  by (cases "amount (revenue c)"; cases "cost_total (cost c)")
    (simp_all add: call_roi_def is_finite_def js_gt_def js_sub_def)

lemma call_efficiency_finite:
  "is_finite (amount (revenue c)) \<Longrightarrow> is_finite (duration (timing c)) \<Longrightarrow>
   is_finite (call_efficiency c)"
  by (cases "amount (revenue c)"; cases "duration (timing c)")
    (simp_all add: call_efficiency_def is_finite_def js_gt_def)

text \<open>
  Claim C7 fails on the code. A call with revenue and no cost, folded into a new
  campaign, leaves \<open>costPerCall\<close> at 0; the \<open>roi\<close> computation of
  \<open>updatePerformance\<close> then divides by it and stores Infinity, and the
  \<open>efficiency\<close> virtual, whose guard tests \<open>totalCalls\<close>, divides by it as well.
\<close>

theorem roi_efficiency_divide_by_zero:
  "costPerCall (performance campaign_after_free_revenue) = Fin 0
   \<and> roi (performance campaign_after_free_revenue) = PosInf
   \<and> js_gt (totalCalls (performance campaign_after_free_revenue)) (Fin 0)
   \<and> efficiency campaign_after_free_revenue = PosInf"
  by (simp add: efficiency_def updatePerformance_roi updatePerformance_fields new_campaign_fields
      call_of_fields example_campaign_def campaign_after_free_revenue_def js_sub_def js_gt_def
      inf_of_sign_def)

subsection \<open>The remaining budget\<close>

text \<open>
  Claim C8. When \<open>budget.spent\<close> has been assigned and Mongoose reports the path as
  modified, the pre-save hook of the campaign leaves \<open>budget.remaining\<close> equal to
  \<open>budget.total\<close> minus \<open>budget.spent\<close>; whatever Mongoose reports, the hook
  changes no field other than \<open>budget.remaining\<close>.
\<close>

theorem campaign_pre_save_remaining:
  "(isModified ''budget.spent'' \<longrightarrow>
      remaining (budget (campaign_pre_save isModified (c\<lparr>budget := (budget c)\<lparr>spent := v\<rparr>\<rparr>)))
        = js_sub (budget_total (budget c)) v)
   \<and> campaign_pre_save isModified c
       = c\<lparr>budget := (budget c)\<lparr>remaining := remaining (budget (campaign_pre_save isModified c))\<rparr>\<rparr>"
  by (simp add: campaign_pre_save_def)

theorem campaign_pre_save_remaining_witness:
  "spent_only ''budget.spent''
   \<and> remaining (budget (campaign_pre_save spent_only
        (example_campaign\<lparr>budget := (budget example_campaign)\<lparr>spent := Fin 60\<rparr>\<rparr>))) = Fin 940"
proof -
  have m: "spent_only ''budget.spent''"
    by (simp add: spent_only_def)
  from campaign_pre_save_remaining [where isModified = spent_only and c = example_campaign
      and v = "Fin 60"] m
  have "remaining (budget (campaign_pre_save spent_only
        (example_campaign\<lparr>budget := (budget example_campaign)\<lparr>spent := Fin 60\<rparr>\<rparr>)))
      = js_sub (budget_total (budget example_campaign)) (Fin 60)"
    by blast
  with m show ?thesis
    by (simp add: example_campaign_def new_campaign_fields js_sub_def)
qed

subsection \<open>isActive\<close>

text \<open>
  Claim C9 fails on the code. The method asks \<open>toLocaleDateString\<close> for the weekday
  in the width \<open>lowercase\<close>, which is not one of the allowed values, so the call
  throws a RangeError before the status or the schedule is looked at: for every
  campaign and every time, the method throws and returns neither true nor false.
\<close>

theorem isActive_throws: "isActive now c = Inl RangeError"
  by (simp add: isActive_def toLocaleDateString_def Let_def)

section \<open>Status changes of a call\<close>

lemma updateStatus_timing:
  "duration (timing (updateStatus s t c)) = duration (timing c)"
  "answeredAt (timing (updateStatus s t c)) = None \<Longrightarrow> answeredAt (timing c) = None"
  "endedAt (timing (updateStatus s t c)) = None \<Longrightarrow> endedAt (timing c) = None"
  by (cases s; simp add: updateStatus_def Let_def)+

lemma apply_event_inv:
  assumes "answeredAt (timing c) = None \<or> endedAt (timing c) = None \<longrightarrow> duration (timing c) = Fin 0"
  shows "answeredAt (timing (apply_event ev c)) = None \<or> endedAt (timing (apply_event ev c)) = None
           \<longrightarrow> duration (timing (apply_event ev c)) = Fin 0"
proof (cases ev)
  case (UpdateStatus s t)
  with assms show ?thesis
    using updateStatus_timing [of s t c] by auto
next
  case Save
  with assms show ?thesis
    by (auto simp add: pre_save_timing split: option.splits)
qed

lemma run_events_inv:
  "(answeredAt (timing c) = None \<or> endedAt (timing c) = None \<longrightarrow> duration (timing c) = Fin 0) \<Longrightarrow>
   (answeredAt (timing (run_events evs c)) = None \<or> endedAt (timing (run_events evs c)) = None
      \<longrightarrow> duration (timing (run_events evs c)) = Fin 0)"
proof (induction evs arbitrary: c)
  case Nil
  then show ?case by simp
next
  case (Cons ev evs)
  from Cons.IH [OF apply_event_inv [OF Cons.prems, of ev]] show ?case by simp
qed

lemma js_ge_zero: "js_ge (Fin (of_int k)) (Fin 0) = (0 \<le> k)"
  by (auto simp add: js_ge_def js_le_def)

text \<open>
  Claim C5, as amended. For every call document reached from a new document by any
  sequence of \<open>updateStatus\<close> calls and saves, after the pre-save recomputation the
  duration is 0 when \<open>answeredAt\<close> or \<open>endedAt\<close> is unset, and otherwise the floor
  of their difference over 1000; it is non-negative exactly when \<open>endedAt\<close> is not
  earlier than \<open>answeredAt\<close>.
\<close>

theorem reachable_duration:
  "duration (timing (call_pre_save (run_events evs (new_call now rate)))) =
     (case (answeredAt (timing (run_events evs (new_call now rate))),
            endedAt (timing (run_events evs (new_call now rate)))) of
        (Some a, Some e) \<Rightarrow> Fin (of_int ((e - a) div 1000))
      | _ \<Rightarrow> Fin 0)
   \<and> answeredAt (timing (call_pre_save (run_events evs (new_call now rate))))
       = answeredAt (timing (run_events evs (new_call now rate)))
   \<and> endedAt (timing (call_pre_save (run_events evs (new_call now rate))))
       = endedAt (timing (run_events evs (new_call now rate)))
   \<and> js_ge (duration (timing (call_pre_save (run_events evs (new_call now rate))))) (Fin 0) =
     (case (answeredAt (timing (run_events evs (new_call now rate))),
            endedAt (timing (run_events evs (new_call now rate)))) of
        (Some a, Some e) \<Rightarrow> a \<le> e
      | _ \<Rightarrow> True)"
proof -
  let ?c = "run_events evs (new_call now rate)"
  have "answeredAt (timing (new_call now rate)) = None \<or> endedAt (timing (new_call now rate)) = None
      \<longrightarrow> duration (timing (new_call now rate)) = Fin 0"
    by (simp add: new_call_timing)
  from run_events_inv [OF this, of evs]
  have inv: "answeredAt (timing ?c) = None \<or> endedAt (timing ?c) = None
      \<longrightarrow> duration (timing ?c) = Fin 0" .
  have d: "duration (timing (call_pre_save ?c)) =
     (case (answeredAt (timing ?c), endedAt (timing ?c)) of
        (Some a, Some e) \<Rightarrow> Fin (of_int ((e - a) div 1000))
      | _ \<Rightarrow> Fin 0)"
    using inv by (auto simp add: pre_save_duration split: option.splits)
  have pos: "\<And>a e :: int. (0 \<le> (e - a) div 1000) = (a \<le> e)"
    by (simp add: pos_imp_zdiv_nonneg_iff)
  have g: "js_ge (duration (timing (call_pre_save ?c))) (Fin 0) =
     (case (answeredAt (timing ?c), endedAt (timing ?c)) of
        (Some a, Some e) \<Rightarrow> a \<le> e
      | _ \<Rightarrow> True)"
    unfolding d using js_ge_zero [of 0]
    by (auto simp add: js_ge_zero pos split: option.splits)
  have a: "answeredAt (timing (call_pre_save ?c)) = answeredAt (timing ?c)"
    and e: "endedAt (timing (call_pre_save ?c)) = endedAt (timing ?c)"
    by (simp_all add: pre_save_timing)
  from d a e g show ?thesis by simp
qed

text \<open>
  Claim C5 as stated fails when the completion carries an earlier timestamp than the
  answer: completed at 5 s, answered at 10 s, the saved duration is -5.
\<close>

theorem negative_duration_reachable:
  "duration (timing (call_pre_save (run_events late_answer_events (new_call 0 (Fin 1))))) = Fin (- 5)
   \<and> \<not> js_ge (duration (timing (call_pre_save (run_events late_answer_events
          (new_call 0 (Fin 1)))))) (Fin 0)"
  by (simp add: pre_save_duration updateStatus_def new_call_def js_ge_def js_le_def
      late_answer_events_def)

text \<open>
  Claim C6, as amended. \<open>updateStatus\<close> sets the status to the requested status,
  whatever the current one is: afterwards the status is terminal exactly when the
  requested status is terminal, and it is not earlier than the previous status exactly
  when the requested status is not earlier.
\<close>

theorem updateStatus_sets_requested_status:
  "status (updateStatus s t c) = s
   \<and> is_terminal (status (updateStatus s t c)) = is_terminal s
   \<and> (status_rank (status c) \<le> status_rank (status (updateStatus s t c)))
       = (status_rank (status c) \<le> status_rank s)"
proof -
  have "status (updateStatus s t c) = s"
    by (cases s) (simp_all add: updateStatus_def Let_def)
  then show ?thesis by simp
qed

text \<open>
  Claim C6 as stated fails: a completed call asked to become \<open>ringing\<close> becomes
  \<open>ringing\<close>, a non-terminal status earlier in the order.
\<close>

theorem terminal_status_moves_back:
  "is_terminal (status completed_call)
   \<and> status (updateStatus Ringing 2000 completed_call) = Ringing
   \<and> \<not> is_terminal (status (updateStatus Ringing 2000 completed_call))
   \<and> status_rank (status (updateStatus Ringing 2000 completed_call))
       < status_rank (status completed_call)"
  by (simp add: updateStatus_def new_call_def is_terminal_def completed_call_def)

end
